theory Spec2Isabelle
  imports Main "HOL-Library.Word" "HOL-Library.Multiset"
begin

unbundle bit_operations_syntax

section \<open>The Windows interface used by \<^verbatim>\<open>memory_usage.cpp\<close>\<close>

text \<open>
  The repository is one exported function, \<^verbatim>\<open>int get_memory_usage(DWORD pid)\<close>, that wraps
  three calls of the Win32 API: \<^verbatim>\<open>OpenProcess\<close>, \<^verbatim>\<open>GetProcessMemoryInfo\<close> and
  \<^verbatim>\<open>CloseHandle\<close>. The API is not code of the repository, so the operating system is a
  parameter of the model: a record that holds what the system answers to each call, the
  calls made so far and the process handles that are open.

  \<^verbatim>\<open>DWORD\<close> is an unsigned 32-bit integer and \<^verbatim>\<open>int\<close> a signed 32-bit integer on every Windows
  target. \<^verbatim>\<open>SIZE_T\<close> and \<^verbatim>\<open>HANDLE\<close> have the width of a pointer (32 bits on Win32, 64 bits on
  Win64); the source does not fix the target, so that width is the type parameter \<open>'w\<close> and
  both are \<open>'w word\<close>. A \<^verbatim>\<open>BOOL\<close> is read only as zero or non-zero and is a \<open>bool\<close> here.
\<close>

type_synonym DWORD = "32 word"
type_synonym c_int = "32 word"

definition PROCESS_QUERY_INFORMATION :: DWORD where
  "PROCESS_QUERY_INFORMATION = 0x0400"

definition PROCESS_VM_READ :: DWORD where
  "PROCESS_VM_READ = 0x0010"

definition FALSE :: bool where
  "FALSE = False"

definition NULL :: "'w::len word" where
  "NULL = 0"

text \<open>
  \<^verbatim>\<open>PROCESS_MEMORY_COUNTERS\<close> as \<^verbatim>\<open>psapi.h\<close> declares it: two \<^verbatim>\<open>DWORD\<close>s followed by eight
  \<^verbatim>\<open>SIZE_T\<close>s. The parameter \<open>'sz\<close> is the type of a \<^verbatim>\<open>SIZE_T\<close>.
\<close>

record 'sz PROCESS_MEMORY_COUNTERS =
  cb :: DWORD
  PageFaultCount :: DWORD
  PeakWorkingSetSize :: 'sz
  WorkingSetSize :: 'sz
  QuotaPeakPagedPoolUsage :: 'sz
  QuotaPagedPoolUsage :: 'sz
  QuotaPeakNonPagedPoolUsage :: 'sz
  QuotaNonPagedPoolUsage :: 'sz
  PagefileUsage :: 'sz
  PeakPagefileUsage :: 'sz

text \<open>
  The access rights, \<^verbatim>\<open>FALSE\<close> and \<^verbatim>\<open>NULL\<close> above have the values the Windows SDK headers
  give them. \<^verbatim>\<open>sizeof(pmc)\<close> is 40 bytes with 32-bit pointers and 72 bytes with 64-bit
  pointers.
\<close>

definition sizeof_PROCESS_MEMORY_COUNTERS :: "'w::len itself \<Rightarrow> DWORD" where
  "sizeof_PROCESS_MEMORY_COUNTERS t = of_nat (2 * 4 + 8 * (LENGTH('w) div 8))"

text \<open>A call of the API, with its arguments. \<open>'p\<close> is the type of a \<^verbatim>\<open>HANDLE\<close>.\<close>

datatype 'p os_call =
    Call_OpenProcess DWORD bool DWORD
  | Call_GetProcessMemoryInfo 'p DWORD
  | Call_CloseHandle 'p

text \<open>
  The operating system as the function sees it.
  \<^item> \<open>OpenProcess_answer\<close> is the \<^verbatim>\<open>HANDLE\<close> the system returns for the access mask, the
    inheritance flag and the process identifier (\<open>NULL\<close>: refused);
  \<^item> \<open>GetProcessMemoryInfo_answer\<close> is \<open>Some\<close> of the structure the system writes to
    \<^verbatim>\<open>pmc\<close> when the query returns non-zero, and \<open>None\<close> when it returns zero;
  \<^item> \<open>calls\<close> is every call made so far, oldest first;
  \<^item> \<open>open_handles\<close> is the bag of handles opened and not yet closed.
  Both answers take the number of calls made so far as their first argument, so the same
  question may be answered differently at different moments (a process exits, its
  working set grows).
\<close>

record 'p os =
  OpenProcess_answer :: "nat \<Rightarrow> DWORD \<Rightarrow> bool \<Rightarrow> DWORD \<Rightarrow> 'p"
  GetProcessMemoryInfo_answer :: "nat \<Rightarrow> 'p \<Rightarrow> DWORD \<Rightarrow> 'p PROCESS_MEMORY_COUNTERS option"
  calls :: "'p os_call list"
  open_handles :: "'p multiset"

definition OpenProcess ::
  "DWORD \<Rightarrow> bool \<Rightarrow> DWORD \<Rightarrow> ('w::len) word os \<Rightarrow> 'w word \<times> 'w word os" where
  "OpenProcess dwDesiredAccess bInheritHandle dwProcessId s =
     (let h = OpenProcess_answer s (length (calls s)) dwDesiredAccess bInheritHandle dwProcessId
      in (h, s\<lparr>calls := calls s @ [Call_OpenProcess dwDesiredAccess bInheritHandle dwProcessId],
                open_handles := (if h = NULL then open_handles s
                                 else add_mset h (open_handles s))\<rparr>))"

definition GetProcessMemoryInfo ::
  "('w::len) word \<Rightarrow> DWORD \<Rightarrow> 'w word os
     \<Rightarrow> 'w word PROCESS_MEMORY_COUNTERS option \<times> 'w word os" where
  "GetProcessMemoryInfo process cbv s =
     (GetProcessMemoryInfo_answer s (length (calls s)) process cbv,
      s\<lparr>calls := calls s @ [Call_GetProcessMemoryInfo process cbv]\<rparr>)"

definition CloseHandle :: "('w::len) word \<Rightarrow> 'w word os \<Rightarrow> bool \<times> 'w word os" where
  "CloseHandle hObject s =
     (hObject \<in># open_handles s,
      s\<lparr>calls := calls s @ [Call_CloseHandle hObject],
        open_handles := open_handles s - {#hObject#}\<rparr>)"

section \<open>\<^verbatim>\<open>get_memory_usage\<close>\<close>

text \<open>
  The function of \<^verbatim>\<open>src/memory_usage.cpp\<close>, statement by statement. The local \<^verbatim>\<open>pmc\<close> is
  read only where \<^verbatim>\<open>GetProcessMemoryInfo\<close> has filled it. The assignment
  \<^verbatim>\<open>memory_usage = pmc.WorkingSetSize\<close> converts a \<^verbatim>\<open>SIZE_T\<close> to an \<^verbatim>\<open>int\<close>: the value is
  reduced modulo \<open>2 ^ 32\<close> (\<open>ucast\<close> to a 32-bit word; C++20 defines the conversion so, and
  the compilers for Windows did so before), and the caller reads the word as two's
  complement (\<open>sint\<close>). The result of \<^verbatim>\<open>CloseHandle\<close> is discarded, as in the source.
\<close>

definition get_memory_usage :: "DWORD \<Rightarrow> ('w::len) word os \<Rightarrow> c_int \<times> 'w word os" where
  "get_memory_usage pid s =
     (let (process, s1) = OpenProcess (PROCESS_QUERY_INFORMATION OR PROCESS_VM_READ) FALSE pid s
      in if process = NULL then (- 1, s1)
         else
           let (filled, s2) =
                 GetProcessMemoryInfo process (sizeof_PROCESS_MEMORY_COUNTERS TYPE('w)) s1;
               memory_usage = (case filled of
                                 Some pmc \<Rightarrow> ucast (WorkingSetSize pmc)
                               | None \<Rightarrow> - 1);
               (closed, s3) = CloseHandle process s2
           in (memory_usage, s3))"

text \<open>The calls one invocation adds to the record of calls.\<close>

definition calls_made :: "DWORD \<Rightarrow> ('w::len) word os \<Rightarrow> 'w word os_call list" where
  "calls_made pid s = drop (length (calls s)) (calls (snd (get_memory_usage pid s)))"

section \<open>Abrupt termination\<close>

text \<open>
  The source has no \<^verbatim>\<open>throw\<close>, no loop and no recursion, and the three functions it calls
  belong to a C interface that reports failure through its return value. What is left that
  could end an invocation other than by \<^verbatim>\<open>return\<close> is
  \<^item> reading an object that holds no value yet: \<^verbatim>\<open>pmc\<close> is declared without an initialiser
    and is written only by a \<^verbatim>\<open>GetProcessMemoryInfo\<close> that returns non-zero, and
    \<^verbatim>\<open>memory_usage\<close> is declared without an initialiser;
  \<^item> passing to \<^verbatim>\<open>CloseHandle\<close> a value that is not an open handle, for which Windows raises
    an exception when a debugger is attached (and returns zero otherwise; counting it as a
    fault in every case only makes the absence of faults harder to prove).
  \<open>get_memory_usage_checked\<close> is the function again, with every local an \<open>option\<close>
  (\<open>None\<close>: no value yet) and each of these steps a fault.
\<close>

datatype fault = Indeterminate_read | Invalid_handle

definition read_local :: "'a option \<Rightarrow> fault + 'a" where
  "read_local v = (case v of None \<Rightarrow> Inl Indeterminate_read | Some x \<Rightarrow> Inr x)"

definition CloseHandle_checked ::
  "('w::len) word \<Rightarrow> 'w word os \<Rightarrow> fault + bool \<times> 'w word os" where
  "CloseHandle_checked hObject s =
     (if hObject \<in># open_handles s then Inr (CloseHandle hObject s) else Inl Invalid_handle)"

definition get_memory_usage_checked ::
  "DWORD \<Rightarrow> ('w::len) word os \<Rightarrow> fault + c_int \<times> 'w word os" where
  "get_memory_usage_checked pid s =
     (let pmc = None;
          (process, s1) = OpenProcess (PROCESS_QUERY_INFORMATION OR PROCESS_VM_READ) FALSE pid s
      in if process = NULL then Inr (- 1, s1)
         else
           let memory_usage = (None :: c_int option);
               (filled, s2) =
                 GetProcessMemoryInfo process (sizeof_PROCESS_MEMORY_COUNTERS TYPE('w)) s1;
               pmc = (case filled of Some written \<Rightarrow> Some written | None \<Rightarrow> pmc);
               assigned =
                 (if filled \<noteq> None
                  then case read_local pmc of
                         Inl f \<Rightarrow> Inl f
                       | Inr p \<Rightarrow> Inr (Some (ucast (WorkingSetSize p)))
                  else Inr (Some (- 1)))
           in case assigned of
                Inl f \<Rightarrow> Inl f
              | Inr memory_usage \<Rightarrow>
                  (case CloseHandle_checked process s2 of
                     Inl f \<Rightarrow> Inl f
                   | Inr (closed, s3) \<Rightarrow>
                       (case read_local memory_usage of
                          Inl f \<Rightarrow> Inl f
                        | Inr r \<Rightarrow> Inr (r, s3))))"

section \<open>Observers and example systems\<close>

text \<open>Which function of the API a recorded call is a call of.\<close>

fun is_OpenProcess :: "'p os_call \<Rightarrow> bool" where
  "is_OpenProcess (Call_OpenProcess a i p) = True"
| "is_OpenProcess c = False"

fun is_GetProcessMemoryInfo :: "'p os_call \<Rightarrow> bool" where
  "is_GetProcessMemoryInfo (Call_GetProcessMemoryInfo h n) = True"
| "is_GetProcessMemoryInfo c = False"

fun is_CloseHandle :: "'p os_call \<Rightarrow> bool" where
  "is_CloseHandle (Call_CloseHandle h) = True"
| "is_CloseHandle c = False"

text \<open>
  A working-set size is a number of resident pages times the size of a page.
  \<open>reports_whole_pages page_size filled\<close> says so of the structure a successful query wrote.
\<close>

definition reports_whole_pages ::
  "nat \<Rightarrow> ('w::len) word PROCESS_MEMORY_COUNTERS option \<Rightarrow> bool" where
  "reports_whole_pages page_size filled =
     (case filled of None \<Rightarrow> True
      | Some pmc \<Rightarrow> page_size dvd unat (WorkingSetSize pmc))"

text \<open>
  A caller that invokes \<open>get_memory_usage\<close> once for each process identifier of a list,
  one invocation after the other, and collects the values returned.
\<close>

fun invoke_all :: "DWORD list \<Rightarrow> ('w::len) word os \<Rightarrow> c_int list \<times> 'w word os" where
  "invoke_all [] s = ([], s)"
| "invoke_all (pid # pids) s =
     (let (r, s1) = get_memory_usage pid s;
          (rs, s2) = invoke_all pids s1
      in (r # rs, s2))"

text \<open>
  A 64-bit system with three kinds of process. Process 4242 is running and accessible: a
  handle is granted for it (when the access mask asks for both rights), and the query on
  that handle reports a working set of \<open>wss\<close> bytes. Process 777 can be opened, but the
  query on its handle fails. For every other identifier the handle is refused.
\<close>

definition example_pmc :: "64 word \<Rightarrow> 64 word PROCESS_MEMORY_COUNTERS" where
  "example_pmc wss =
     \<lparr>cb = 72, PageFaultCount = 1000, PeakWorkingSetSize = wss, WorkingSetSize = wss,
      QuotaPeakPagedPoolUsage = 0, QuotaPagedPoolUsage = 0, QuotaPeakNonPagedPoolUsage = 0,
      QuotaNonPagedPoolUsage = 0, PagefileUsage = 0, PeakPagefileUsage = 0\<rparr>"

definition example_os :: "64 word \<Rightarrow> 64 word os" where
  "example_os wss =
     \<lparr>OpenProcess_answer =
        (\<lambda>t acc inh p. if p = 4242 \<and> acc AND 0x410 = 0x410 then 0x1F4
                       else if p = 777 then 0x2A0 else NULL),
      GetProcessMemoryInfo_answer =
        (\<lambda>t h n. if h = 0x1F4 \<and> 72 \<le> n then Some (example_pmc wss) else None),
      calls = [],
      open_handles = {#}\<rparr>"

text \<open>
  A system that grants a handle for every process identifier and answers every query.
\<close>

definition permissive_os :: "64 word \<Rightarrow> 64 word os" where
  "permissive_os wss =
     \<lparr>OpenProcess_answer = (\<lambda>t acc inh p. 0x1F4),
      GetProcessMemoryInfo_answer = (\<lambda>t h n. Some (example_pmc wss)),
      calls = [],
      open_handles = {#}\<rparr>"

text \<open>
  A system caught later in its life: a call has been made already, two handles are open,
  the handle it grants differs, and it answers the memory query only at one moment.
\<close>

definition busy_os :: "64 word os" where
  "busy_os =
     \<lparr>OpenProcess_answer = (\<lambda>t acc inh p. if p = 4242 then 0x3C8 else NULL),
      GetProcessMemoryInfo_answer =
        (\<lambda>t h n. if h = 0x3C8 \<and> t = 2 then Some (example_pmc 5000000) else None),
      calls = [Call_CloseHandle 0x10],
      open_handles = {#0x24, 0x28#}\<rparr>"

section \<open>Properties\<close>

subsection \<open>The conversion to \<^verbatim>\<open>int\<close>\<close>

lemma signed_take_bit_31_cases:
  fixes k :: int
  shows "signed_take_bit 31 k =
    (if k mod 2 ^ 32 < 2 ^ 31 then k mod 2 ^ 32 else k mod 2 ^ 32 - 2 ^ 32)"
proof -
  define m where "m = k mod 2 ^ 32"
  have m: "0 \<le> m" "m < 2 ^ 32"
    by (simp_all add: m_def)
  have "signed_take_bit 31 k = (k + 2 ^ 31) mod 2 ^ 32 - 2 ^ 31"
    by (simp add: signed_take_bit_eq_take_bit_shift take_bit_eq_mod)
  also have "(k + 2 ^ 31) mod 2 ^ 32 = (m + 2 ^ 31) mod 2 ^ 32"
    unfolding m_def by (simp add: mod_add_left_eq)
  also have "\<dots> = (if m < 2 ^ 31 then m + 2 ^ 31 else m + 2 ^ 31 - 2 ^ 32)"
  proof (cases "m < 2 ^ 31")
    case True
    with m show ?thesis by (simp add: mod_pos_pos_trivial)
  next
    case False
    have "(m + 2 ^ 31) mod 2 ^ 32 = (m + 2 ^ 31 - 2 ^ 32) mod 2 ^ 32"
      by (metis mod_diff_right_eq mod_self diff_zero)
    also have "\<dots> = m + 2 ^ 31 - 2 ^ 32"
      using False m by (intro mod_pos_pos_trivial) simp_all
    finally show ?thesis using False by simp
  qed
  finally show ?thesis
    by (simp add: m_def)
qed

lemma sint_ucast_32:
  fixes w :: "'w::len word"
  shows "sint (ucast w :: 32 word) =
    (if uint w mod 2 ^ 32 < 2 ^ 31 then uint w mod 2 ^ 32 else uint w mod 2 ^ 32 - 2 ^ 32)"
  using signed_take_bit_31_cases [of "uint w"]
  by (simp only: signed_ucast_eq) simp

subsection \<open>The three calls\<close>

lemma OpenProcess_fst:
  "fst (OpenProcess a i p s) = OpenProcess_answer s (length (calls s)) a i p"
  by (simp add: OpenProcess_def Let_def)

lemma OpenProcess_calls:
  "calls (snd (OpenProcess a i p s)) = calls s @ [Call_OpenProcess a i p]"
  by (simp add: OpenProcess_def Let_def)

lemma OpenProcess_open_handles:
  "open_handles (snd (OpenProcess a i p s)) =
     (if fst (OpenProcess a i p s) = NULL then open_handles s
      else add_mset (fst (OpenProcess a i p s)) (open_handles s))"
  by (simp add: OpenProcess_def Let_def)

lemma GetProcessMemoryInfo_snd:
  "calls (snd (GetProcessMemoryInfo h n s)) = calls s @ [Call_GetProcessMemoryInfo h n]"
  "open_handles (snd (GetProcessMemoryInfo h n s)) = open_handles s"
  by (simp_all add: GetProcessMemoryInfo_def)

lemma CloseHandle_snd:
  "calls (snd (CloseHandle h s)) = calls s @ [Call_CloseHandle h]"
  "open_handles (snd (CloseHandle h s)) = open_handles s - {#h#}"
  by (simp_all add: CloseHandle_def)

lemma get_memory_usage_granted:
  fixes s :: "('w::len) word os"
  assumes "OpenProcess (PROCESS_QUERY_INFORMATION OR PROCESS_VM_READ) FALSE pid s = (h, s1)"
    and "h \<noteq> NULL"
    and "GetProcessMemoryInfo h (sizeof_PROCESS_MEMORY_COUNTERS TYPE('w)) s1 = (filled, s2)"
  shows "get_memory_usage pid s =
           (case filled of Some pmc \<Rightarrow> ucast (WorkingSetSize pmc) | None \<Rightarrow> - 1,
            snd (CloseHandle h s2))"
  using assms by (simp add: get_memory_usage_def split_beta)

lemma calls_made_cases:
  fixes s :: "('w::len) word os"
  shows "calls_made pid s =
     (let h = fst (OpenProcess (PROCESS_QUERY_INFORMATION OR PROCESS_VM_READ) FALSE pid s)
      in if h = NULL
         then [Call_OpenProcess (PROCESS_QUERY_INFORMATION OR PROCESS_VM_READ) FALSE pid]
         else [Call_OpenProcess (PROCESS_QUERY_INFORMATION OR PROCESS_VM_READ) FALSE pid,
               Call_GetProcessMemoryInfo h (sizeof_PROCESS_MEMORY_COUNTERS TYPE('w)),
               Call_CloseHandle h])"
  by (simp add: calls_made_def get_memory_usage_def split_beta Let_def
      OpenProcess_calls GetProcessMemoryInfo_snd CloseHandle_snd)

lemma open_handles_get_memory_usage:
  "open_handles (snd (get_memory_usage pid s)) = open_handles s"
  by (simp add: get_memory_usage_def split_beta Let_def
      OpenProcess_open_handles GetProcessMemoryInfo_snd CloseHandle_snd)

lemma open_handles_invoke_all:
  "open_handles (snd (invoke_all pids s)) = open_handles s"
  by (induction pids arbitrary: s)
    (simp_all add: split_beta open_handles_get_memory_usage)

lemma get_memory_usage_refused:
  assumes "OpenProcess (PROCESS_QUERY_INFORMATION OR PROCESS_VM_READ) FALSE pid s = (NULL, s1)"
  shows "get_memory_usage pid s = (- 1, s1)"
  using assms by (simp add: get_memory_usage_def)

lemma get_memory_usage_snd:
  "snd (get_memory_usage pid s) = s\<lparr>calls := calls s @ calls_made pid s\<rparr>"
  by (simp add: calls_made_def get_memory_usage_def split_beta Let_def
      OpenProcess_def GetProcessMemoryInfo_def CloseHandle_def)

subsection \<open>No fault\<close>

lemma get_memory_usage_checked_eq:
  "get_memory_usage_checked pid s = Inr (get_memory_usage pid s)"
  by (simp add: get_memory_usage_checked_def get_memory_usage_def split_beta Let_def
      read_local_def CloseHandle_checked_def OpenProcess_def GetProcessMemoryInfo_def
      split: option.splits)

subsection \<open>The value returned\<close>

text \<open>
  A working-set size below \<open>2 ^ 31\<close> bytes is returned as it is.
\<close>

lemma small_working_set_returned_exactly:
  fixes s :: "('w::len) word os"
  assumes "OpenProcess (PROCESS_QUERY_INFORMATION OR PROCESS_VM_READ) FALSE pid s = (h, s1)"
    and "h \<noteq> NULL"
    and "GetProcessMemoryInfo h (sizeof_PROCESS_MEMORY_COUNTERS TYPE('w)) s1 = (Some pmc, s2)"
    and "uint (WorkingSetSize pmc) < 2 ^ 31"
  shows "sint (fst (get_memory_usage pid s)) = uint (WorkingSetSize pmc)
       \<and> 0 \<le> sint (fst (get_memory_usage pid s))"
proof -
  have r: "fst (get_memory_usage pid s) = ucast (WorkingSetSize pmc)"
    using get_memory_usage_granted [OF assms(1-3)] by simp
  have "uint (WorkingSetSize pmc) mod 2 ^ 32 = uint (WorkingSetSize pmc)"
    using assms(4) by (intro mod_pos_pos_trivial) simp_all
  with assms(4) show ?thesis
    unfolding r by (simp add: sint_ucast_32)
qed

text \<open>
  The value \<open>-1\<close> is returned when the handle is refused, when the query fails, and when
  the low 32 bits of the reported working-set size are all ones.
\<close>

lemma sentinel_iff:
  fixes s :: "('w::len) word os"
  assumes "OpenProcess (PROCESS_QUERY_INFORMATION OR PROCESS_VM_READ) FALSE pid s = (h, s1)"
    and "GetProcessMemoryInfo h (sizeof_PROCESS_MEMORY_COUNTERS TYPE('w)) s1 = (filled, s2)"
  shows "fst (get_memory_usage pid s) = - 1 \<longleftrightarrow>
           h = NULL \<or> filled = None
           \<or> (\<exists>pmc. filled = Some pmc \<and> uint (WorkingSetSize pmc) mod 2 ^ 32 = 2 ^ 32 - 1)"
proof (cases "h = NULL")
  case True
  with get_memory_usage_refused [of pid s s1] assms(1) show ?thesis by simp
next
  case False
  have r: "fst (get_memory_usage pid s) =
      (case filled of Some pmc \<Rightarrow> ucast (WorkingSetSize pmc) | None \<Rightarrow> - 1)"
    using get_memory_usage_granted [OF assms(1) False assms(2)] by simp
  show ?thesis
  proof (cases filled)
    case None
    with r show ?thesis by simp
  next
    case (Some pmc)
    have "(ucast (WorkingSetSize pmc) :: 32 word) = - 1 \<longleftrightarrow>
        uint (ucast (WorkingSetSize pmc) :: 32 word) = uint (- 1 :: 32 word)"
      by (simp only: word_uint_eq_iff)
    also have "\<dots> \<longleftrightarrow> uint (WorkingSetSize pmc) mod 2 ^ 32 = 2 ^ 32 - 1"
      by (simp add: unsigned_ucast_eq take_bit_eq_mod unsigned_minus_1_eq_mask
          mask_eq_exp_minus_1)
    finally show ?thesis
      using r Some False by simp
  qed
qed

lemma sint_minus_one_iff: "sint (r :: 32 word) = - 1 \<longleftrightarrow> r = - 1"
  by (metis sint_n1 signed_word_eqI)

text \<open>
  A size in whole pages does not have its low 32 bits all ones.
\<close>

lemma whole_pages_not_all_ones:
  fixes w :: "('w::len) word"
  assumes "even page_size" and "page_size dvd unat w"
  shows "uint w mod 2 ^ 32 \<noteq> 2 ^ 32 - 1"
proof -
  from assms have "even (unat w)"
    using dvd_trans by blast
  then have "even (uint w)"
    by (simp only: uint_nat even_of_nat)
  then have z: "uint w mod 2 = 0"
    by presburger
  have c: "uint w mod 2 ^ 32 mod 2 = uint w mod 2"
    by (rule mod_mod_cancel) simp
  show ?thesis
  proof
    assume "uint w mod 2 ^ 32 = 2 ^ 32 - 1"
    with c z show False by simp
  qed
qed

subsection \<open>Evaluation on the example systems\<close>

text \<open>
  Unfolding these evaluates \<open>get_memory_usage\<close> on the example systems.
\<close>

lemmas example_defs =
  example_os_def permissive_os_def busy_os_def example_pmc_def
  OpenProcess_def GetProcessMemoryInfo_def CloseHandle_def get_memory_usage_def calls_made_def PROCESS_QUERY_INFORMATION_def PROCESS_VM_READ_def
  FALSE_def NULL_def sizeof_PROCESS_MEMORY_COUNTERS_def Let_def

text \<open>
  A size whose low 32 bits are all ones, which is no whole number of pages, is returned as
  \<open>-1\<close>.
\<close>

lemma all_ones_working_set_returned_as_sentinel:
  "OpenProcess (PROCESS_QUERY_INFORMATION OR PROCESS_VM_READ) FALSE 4242 (example_os 0xFFFFFFFF)
     = (0x1F4, (example_os 0xFFFFFFFF)\<lparr>calls := [Call_OpenProcess 0x410 False 4242],
                                         open_handles := {#0x1F4#}\<rparr>)
   \<and> fst (GetProcessMemoryInfo 0x1F4 (sizeof_PROCESS_MEMORY_COUNTERS TYPE(64))
        ((example_os 0xFFFFFFFF)\<lparr>calls := [Call_OpenProcess 0x410 False 4242],
                                   open_handles := {#0x1F4#}\<rparr>))
     = Some (example_pmc 0xFFFFFFFF)
   \<and> sint (fst (get_memory_usage 4242 (example_os 0xFFFFFFFF))) = - 1"
  by (simp add: example_defs)

section \<open>The claims\<close>

subsection \<open>C1: the value returned on success is not negative\<close>

text \<open>
  Claim C1. When the system grants a handle and the memory query succeeds, the value
  returned is \<open>\<ge> 0\<close> and is the working-set size in bytes. The source states the same
  in its comment (``Returns the working set size in bytes of a given process by ID''), but
  the function returns an \<^verbatim>\<open>int\<close>: for a process whose working set is \<open>2 ^ 31\<close> bytes
  (2 GiB), with a handle granted and the query answered, the value returned is
  \<open>-2147483648\<close>. The claim holds for sizes below \<open>2 ^ 31\<close>
  (\<open>small_working_set_returned_exactly\<close>).
\<close>

theorem two_gib_working_set_returned_negative:
  "OpenProcess (PROCESS_QUERY_INFORMATION OR PROCESS_VM_READ) FALSE 4242 (example_os 0x80000000)
     = (0x1F4, (example_os 0x80000000)\<lparr>calls := [Call_OpenProcess 0x410 False 4242],
                                         open_handles := {#0x1F4#}\<rparr>)
   \<and> fst (GetProcessMemoryInfo 0x1F4 (sizeof_PROCESS_MEMORY_COUNTERS TYPE(64))
        ((example_os 0x80000000)\<lparr>calls := [Call_OpenProcess 0x410 False 4242],
                                   open_handles := {#0x1F4#}\<rparr>))
     = Some (example_pmc 0x80000000)
   \<and> uint (WorkingSetSize (example_pmc 0x80000000)) = 2147483648
   \<and> sint (fst (get_memory_usage 4242 (example_os 0x80000000))) = - 2147483648"
  by (simp add: example_defs)

subsection \<open>C2: \<open>-1\<close> is returned exactly on failure\<close>

text \<open>
  Claim C2. \<open>get_memory_usage\<close> returns \<open>-1\<close> if and only if the handle is refused or the
  memory query fails; both failures give the same \<open>-1\<close>, so the value does not tell
  which of the two occurred. The system reports a working-set size in whole pages, of a
  page size that is even: then no size converts to \<open>-1\<close>, and the equivalence holds for
  every process identifier, every state of the system and every pointer width.
\<close>

theorem sentinel_exactly_on_failure:
  fixes s :: "('w::len) word os"
  assumes "OpenProcess (PROCESS_QUERY_INFORMATION OR PROCESS_VM_READ) FALSE pid s = (h, s1)"
    and "GetProcessMemoryInfo h (sizeof_PROCESS_MEMORY_COUNTERS TYPE('w)) s1 = (filled, s2)"
    and "even page_size"
    and "reports_whole_pages page_size filled"
  shows "sint (fst (get_memory_usage pid s)) = - 1 \<longleftrightarrow> h = NULL \<or> filled = None"
proof -
  have "\<not> (\<exists>pmc. filled = Some pmc \<and> uint (WorkingSetSize pmc) mod 2 ^ 32 = 2 ^ 32 - 1)"
  proof
    assume "\<exists>pmc. filled = Some pmc \<and> uint (WorkingSetSize pmc) mod 2 ^ 32 = 2 ^ 32 - 1"
    then obtain pmc where p: "filled = Some pmc"
      and e: "uint (WorkingSetSize pmc) mod 2 ^ 32 = 2 ^ 32 - 1"
      by blast
    from p assms(4) have "page_size dvd unat (WorkingSetSize pmc)"
      by (simp add: reports_whole_pages_def)
    from whole_pages_not_all_ones [OF assms(3) this] e show False
      by simp
  qed
  with sentinel_iff [OF assms(1,2)] show ?thesis
    by (simp only: sint_minus_one_iff) blast
qed

theorem sentinel_exactly_on_failure_witness:
  "sint (fst (get_memory_usage 4242 (example_os 0x4C5000))) \<noteq> - 1
   \<and> sint (fst (get_memory_usage 777 (example_os 0x4C5000))) = - 1
   \<and> sint (fst (get_memory_usage 0 (example_os 0x4C5000))) = - 1"
proof -
  have a: "OpenProcess (PROCESS_QUERY_INFORMATION OR PROCESS_VM_READ) FALSE p (example_os 0x4C5000)
      = (fst (OpenProcess (PROCESS_QUERY_INFORMATION OR PROCESS_VM_READ) FALSE p (example_os 0x4C5000)),
         snd (OpenProcess (PROCESS_QUERY_INFORMATION OR PROCESS_VM_READ) FALSE p (example_os 0x4C5000)))" for p
    by simp
  have h: "fst (OpenProcess (PROCESS_QUERY_INFORMATION OR PROCESS_VM_READ) FALSE 4242 (example_os 0x4C5000)) = 0x1F4"
    "fst (OpenProcess (PROCESS_QUERY_INFORMATION OR PROCESS_VM_READ) FALSE 777 (example_os 0x4C5000)) = 0x2A0"
    "fst (OpenProcess (PROCESS_QUERY_INFORMATION OR PROCESS_VM_READ) FALSE 0 (example_os 0x4C5000)) = NULL"
    by (simp_all add: example_defs)
  have b: "GetProcessMemoryInfo 0x1F4 (sizeof_PROCESS_MEMORY_COUNTERS TYPE(64))
       (snd (OpenProcess (PROCESS_QUERY_INFORMATION OR PROCESS_VM_READ) FALSE 4242 (example_os 0x4C5000)))
      = (Some (example_pmc 0x4C5000),
         snd (GetProcessMemoryInfo 0x1F4 (sizeof_PROCESS_MEMORY_COUNTERS TYPE(64))
       (snd (OpenProcess (PROCESS_QUERY_INFORMATION OR PROCESS_VM_READ) FALSE 4242 (example_os 0x4C5000)))))"
    by (simp add: example_defs)
  have c: "GetProcessMemoryInfo 0x2A0 (sizeof_PROCESS_MEMORY_COUNTERS TYPE(64))
       (snd (OpenProcess (PROCESS_QUERY_INFORMATION OR PROCESS_VM_READ) FALSE 777 (example_os 0x4C5000)))
      = (None,
         snd (GetProcessMemoryInfo 0x2A0 (sizeof_PROCESS_MEMORY_COUNTERS TYPE(64))
       (snd (OpenProcess (PROCESS_QUERY_INFORMATION OR PROCESS_VM_READ) FALSE 777 (example_os 0x4C5000)))))"
    by (simp add: example_defs)
  have d: "GetProcessMemoryInfo NULL (sizeof_PROCESS_MEMORY_COUNTERS TYPE(64))
       (snd (OpenProcess (PROCESS_QUERY_INFORMATION OR PROCESS_VM_READ) FALSE 0 (example_os 0x4C5000)))
      = (None,
         snd (GetProcessMemoryInfo NULL (sizeof_PROCESS_MEMORY_COUNTERS TYPE(64))
       (snd (OpenProcess (PROCESS_QUERY_INFORMATION OR PROCESS_VM_READ) FALSE 0 (example_os 0x4C5000)))))"
    by (simp add: example_defs)
  have e: "even (4096 :: nat)"
    by simp
  have w: "reports_whole_pages 4096 (Some (example_pmc 0x4C5000))"
    "reports_whole_pages 4096 (None :: 64 word PROCESS_MEMORY_COUNTERS option)"
    by (simp_all add: reports_whole_pages_def example_pmc_def)
  show ?thesis
    using sentinel_exactly_on_failure [OF a [of 4242, unfolded h] b e w(1)]
      sentinel_exactly_on_failure [OF a [of 777, unfolded h] c e w(2)]
      sentinel_exactly_on_failure [OF a [of 0, unfolded h] d e w(2)]
    by (simp add: NULL_def)
qed

subsection \<open>C3: the value returned on success is the working-set size\<close>

text \<open>
  Claim C3. On success the value returned equals the \<^verbatim>\<open>WorkingSetSize\<close> counter the
  system reported, in bytes. With 64-bit pointers, a handle granted and a reported size of
  \<open>4294971392\<close> bytes (4 GiB and 4 KiB), the value returned is \<open>4096\<close>.
\<close>

theorem four_gib_working_set_returned_wrong:
  "OpenProcess (PROCESS_QUERY_INFORMATION OR PROCESS_VM_READ) FALSE 4242 (example_os 0x100001000)
     = (0x1F4, (example_os 0x100001000)\<lparr>calls := [Call_OpenProcess 0x410 False 4242],
                                         open_handles := {#0x1F4#}\<rparr>)
   \<and> fst (GetProcessMemoryInfo 0x1F4 (sizeof_PROCESS_MEMORY_COUNTERS TYPE(64))
        ((example_os 0x100001000)\<lparr>calls := [Call_OpenProcess 0x410 False 4242],
                                   open_handles := {#0x1F4#}\<rparr>))
     = Some (example_pmc 0x100001000)
   \<and> uint (WorkingSetSize (example_pmc 0x100001000)) = 4294971392
   \<and> sint (fst (get_memory_usage 4242 (example_os 0x100001000))) = 4096"
  by (simp add: example_defs)

subsection \<open>C4: a refused handle\<close>

text \<open>
  Claim C4. When \<^verbatim>\<open>OpenProcess\<close> returns \<open>NULL\<close>, \<open>get_memory_usage\<close> returns \<open>-1\<close> in
  the state that call left: the one call it made is \<^verbatim>\<open>OpenProcess\<close>, so the memory counters
  are not queried and no handle is closed, and the open handles are those of before.
\<close>

theorem refused_handle_fails_immediately:
  assumes "OpenProcess (PROCESS_QUERY_INFORMATION OR PROCESS_VM_READ) FALSE pid s = (NULL, s1)"
  shows "get_memory_usage pid s = (- 1, s1)
       \<and> calls_made pid s =
           [Call_OpenProcess (PROCESS_QUERY_INFORMATION OR PROCESS_VM_READ) FALSE pid]
       \<and> filter is_GetProcessMemoryInfo (calls_made pid s) = []
       \<and> filter is_CloseHandle (calls_made pid s) = []
       \<and> open_handles s1 = open_handles s"
proof -
  from assms have h: "fst (OpenProcess (PROCESS_QUERY_INFORMATION OR PROCESS_VM_READ) FALSE pid s) = NULL"
    by simp
  have c: "calls_made pid s =
      [Call_OpenProcess (PROCESS_QUERY_INFORMATION OR PROCESS_VM_READ) FALSE pid]"
    using h by (simp add: calls_made_cases)
  have o: "open_handles s1 = open_handles s"
    using OpenProcess_open_handles [of "PROCESS_QUERY_INFORMATION OR PROCESS_VM_READ" FALSE pid s]
      assms by simp
  from get_memory_usage_refused [OF assms] c o show ?thesis
    by simp
qed

theorem refused_handle_fails_immediately_witness:
  "get_memory_usage 0 (example_os 5000000) =
     (- 1, (example_os 5000000)\<lparr>calls := [Call_OpenProcess 0x410 False 0]\<rparr>)
   \<and> calls_made 0 (example_os 5000000) = [Call_OpenProcess 0x410 False 0]"
proof -
  have a: "OpenProcess (PROCESS_QUERY_INFORMATION OR PROCESS_VM_READ) FALSE 0 (example_os 5000000)
      = (NULL, (example_os 5000000)\<lparr>calls := [Call_OpenProcess 0x410 False 0]\<rparr>)"
    by (simp add: example_defs)
  show ?thesis
    using refused_handle_fails_immediately [OF a]
    by (simp add: PROCESS_QUERY_INFORMATION_def PROCESS_VM_READ_def FALSE_def)
qed

subsection \<open>C5: an acquired handle is released\<close>

text \<open>
  Claim C5. When \<^verbatim>\<open>OpenProcess\<close> grants a handle \<open>h\<close>, whatever the memory query answers,
  the invocation calls \<^verbatim>\<open>CloseHandle\<close> once, on \<open>h\<close>, as its last call, and the open handles
  after the invocation are those of before it. Hence any number of invocations, for any
  process identifiers, leaves the open handles as they were.
\<close>

theorem acquired_handle_is_released:
  fixes s :: "('w::len) word os"
  assumes "OpenProcess (PROCESS_QUERY_INFORMATION OR PROCESS_VM_READ) FALSE pid s = (h, s1)"
    and "h \<noteq> NULL"
  shows "open_handles s1 = add_mset h (open_handles s)
       \<and> filter is_CloseHandle (calls_made pid s) = [Call_CloseHandle h]
       \<and> last (calls_made pid s) = Call_CloseHandle h
       \<and> open_handles (snd (get_memory_usage pid s)) = open_handles s
       \<and> open_handles (snd (invoke_all (pid # pids) s)) = open_handles s"
proof -
  from assms have h: "fst (OpenProcess (PROCESS_QUERY_INFORMATION OR PROCESS_VM_READ) FALSE pid s) = h"
    by simp
  have o: "open_handles s1 = add_mset h (open_handles s)"
    using OpenProcess_open_handles [of "PROCESS_QUERY_INFORMATION OR PROCESS_VM_READ" FALSE pid s]
      assms by simp
  have c: "calls_made pid s =
      [Call_OpenProcess (PROCESS_QUERY_INFORMATION OR PROCESS_VM_READ) FALSE pid,
       Call_GetProcessMemoryInfo h (sizeof_PROCESS_MEMORY_COUNTERS TYPE('w)),
       Call_CloseHandle h]"
    using h assms(2) by (simp add: calls_made_cases)
  show ?thesis
    by (simp only: o c open_handles_get_memory_usage open_handles_invoke_all) simp
qed

theorem acquired_handle_is_released_witness:
  "filter is_CloseHandle (calls_made 4242 (example_os 5000000)) = [Call_CloseHandle 0x1F4]
   \<and> filter is_CloseHandle (calls_made 777 (example_os 5000000)) = [Call_CloseHandle 0x2A0]
   \<and> open_handles (snd (get_memory_usage 4242 (example_os 5000000))) = {#}
   \<and> open_handles (snd (get_memory_usage 777 (example_os 5000000))) = {#}
   \<and> open_handles (snd (invoke_all [4242, 777, 0, 4242] (example_os 5000000))) = {#}"
proof -
  have a: "OpenProcess (PROCESS_QUERY_INFORMATION OR PROCESS_VM_READ) FALSE 4242 (example_os 5000000)
      = (0x1F4, snd (OpenProcess (PROCESS_QUERY_INFORMATION OR PROCESS_VM_READ) FALSE 4242
                       (example_os 5000000)))"
    by (simp add: example_defs)
  have b: "OpenProcess (PROCESS_QUERY_INFORMATION OR PROCESS_VM_READ) FALSE 777 (example_os 5000000)
      = (0x2A0, snd (OpenProcess (PROCESS_QUERY_INFORMATION OR PROCESS_VM_READ) FALSE 777
                       (example_os 5000000)))"
    by (simp add: example_defs)
  have n: "(0x1F4 :: 64 word) \<noteq> NULL" "(0x2A0 :: 64 word) \<noteq> NULL"
    by (simp_all add: NULL_def)
  have e: "open_handles (example_os 5000000) = {#}"
    by (simp add: example_os_def)
  show ?thesis
    using acquired_handle_is_released [OF a n(1), of "[777, 0, 4242]"]
      acquired_handle_is_released [OF b n(2), of "[]"]
    by (simp add: e)
qed

subsection \<open>C6: the conversion of the working-set size to \<^verbatim>\<open>int\<close>\<close>

text \<open>
  Claim C6. On a successful query (a handle was granted and \<^verbatim>\<open>GetProcessMemoryInfo\<close>
  returned non-zero) the value returned is the reported \<^verbatim>\<open>SIZE_T\<close> working-set size
  reduced modulo \<open>2 ^ 32\<close> and read as a signed 32-bit integer. So a size in
  \<open>[2 ^ 31, 2 ^ 32)\<close> is returned as a negative number, and for a size of \<open>2 ^ 32\<close> or
  more the value returned is not the byte count. The statement holds for every pointer
  width \<open>'w\<close>.
\<close>

theorem working_set_truncated_to_int:
  fixes s :: "('w::len) word os"
  assumes "OpenProcess (PROCESS_QUERY_INFORMATION OR PROCESS_VM_READ) FALSE pid s = (h, s1)"
    and "h \<noteq> NULL"
    and "GetProcessMemoryInfo h (sizeof_PROCESS_MEMORY_COUNTERS TYPE('w)) s1 = (Some pmc, s2)"
  shows "sint (fst (get_memory_usage pid s)) =
           (if uint (WorkingSetSize pmc) mod 2 ^ 32 < 2 ^ 31
            then uint (WorkingSetSize pmc) mod 2 ^ 32
            else uint (WorkingSetSize pmc) mod 2 ^ 32 - 2 ^ 32)
       \<and> (2 ^ 31 \<le> uint (WorkingSetSize pmc) \<and> uint (WorkingSetSize pmc) < 2 ^ 32
            \<longrightarrow> sint (fst (get_memory_usage pid s)) < 0)
       \<and> (2 ^ 32 \<le> uint (WorkingSetSize pmc)
            \<longrightarrow> sint (fst (get_memory_usage pid s)) \<noteq> uint (WorkingSetSize pmc))"
proof -
  let ?n = "uint (WorkingSetSize pmc)"
  have r: "fst (get_memory_usage pid s) = ucast (WorkingSetSize pmc)"
    using get_memory_usage_granted [OF assms] by simp
  have eq: "sint (fst (get_memory_usage pid s)) =
      (if ?n mod 2 ^ 32 < 2 ^ 31 then ?n mod 2 ^ 32 else ?n mod 2 ^ 32 - 2 ^ 32)"
    unfolding r by (rule sint_ucast_32)
  have neg: "sint (fst (get_memory_usage pid s)) < 0" if "2 ^ 31 \<le> ?n" "?n < 2 ^ 32"
  proof -
    from that have "?n mod 2 ^ 32 = ?n"
      by (intro mod_pos_pos_trivial) simp_all
    with that eq show ?thesis by simp
  qed
  have ne: "sint (fst (get_memory_usage pid s)) \<noteq> ?n" if "2 ^ 32 \<le> ?n"
  proof -
    have "sint (fst (get_memory_usage pid s)) < 2 ^ 31"
      using sint_lt [of "fst (get_memory_usage pid s)"] by simp
    with that show ?thesis by simp
  qed
  from eq neg ne show ?thesis by blast
qed

theorem working_set_truncated_to_int_witness:
  "sint (fst (get_memory_usage 4242 (example_os 0x80000000))) = - 2147483648
   \<and> sint (fst (get_memory_usage 4242 (example_os 0x100001000))) = 4096
   \<and> uint (WorkingSetSize (example_pmc 0x100001000)) = 4294971392"
proof -
  have a: "OpenProcess (PROCESS_QUERY_INFORMATION OR PROCESS_VM_READ) FALSE 4242 (example_os w)
      = (0x1F4, snd (OpenProcess (PROCESS_QUERY_INFORMATION OR PROCESS_VM_READ) FALSE 4242 (example_os w)))" for w
    by (simp add: example_defs)
  have b: "(0x1F4 :: 64 word) \<noteq> NULL"
    by (simp add: NULL_def)
  have c: "GetProcessMemoryInfo 0x1F4 (sizeof_PROCESS_MEMORY_COUNTERS TYPE(64))
       (snd (OpenProcess (PROCESS_QUERY_INFORMATION OR PROCESS_VM_READ) FALSE 4242 (example_os w)))
      = (Some (example_pmc w), snd (GetProcessMemoryInfo 0x1F4 (sizeof_PROCESS_MEMORY_COUNTERS TYPE(64))
       (snd (OpenProcess (PROCESS_QUERY_INFORMATION OR PROCESS_VM_READ) FALSE 4242 (example_os w)))))" for w
    by (simp add: example_defs)
  show ?thesis
    using working_set_truncated_to_int [OF a b c, of "0x80000000"]
      working_set_truncated_to_int [OF a b c, of "0x100001000"]
    by (simp add: example_pmc_def)
qed

subsection \<open>C7: the function always returns\<close>

text \<open>
  Claim C7. For every process identifier and every system (so for every combination of
  answers to the calls), the invocation ends by \<^verbatim>\<open>return\<close> and not by a fault: it reads
  \<^verbatim>\<open>pmc\<close> only after a query that filled it, it reads \<^verbatim>\<open>memory_usage\<close> only after
  assigning it, and the handle it closes is open. The value returned is that of
  \<open>get_memory_usage\<close>, a 32-bit signed integer, and the invocation makes at least one and
  at most three calls of the API.
\<close>

theorem get_memory_usage_returns:
  "\<exists>r s'. get_memory_usage_checked pid s = Inr (r, s')
      \<and> get_memory_usage pid s = (r, s')
      \<and> - (2 ^ 31) \<le> sint r \<and> sint r < 2 ^ 31
      \<and> length (calls s) < length (calls s')
      \<and> length (calls s') \<le> length (calls s) + 3"
proof -
  obtain r s' where rs: "get_memory_usage pid s = (r, s')"
    by (cases "get_memory_usage pid s")
  have "get_memory_usage_checked pid s = Inr (r, s')"
    using get_memory_usage_checked_eq [of pid s] rs by simp
  moreover have "- (2 ^ 31) \<le> sint r" "sint r < 2 ^ 31"
    using sint_ge [of r] sint_lt [of r] by simp_all
  moreover have "calls s' = calls s @ calls_made pid s"
    using get_memory_usage_snd [of pid s] rs by simp
  moreover have "0 < length (calls_made pid s)" "length (calls_made pid s) \<le> 3"
    by (simp_all add: calls_made_cases Let_def)
  ultimately show ?thesis
    using rs by simp
qed

theorem get_memory_usage_returns_witness:
  "(\<exists>r s'. get_memory_usage_checked 4242 (example_os 5000000) = Inr (r, s') \<and> sint r = 5000000)
   \<and> (\<exists>r s'. get_memory_usage_checked 777 (example_os 5000000) = Inr (r, s') \<and> sint r = - 1)
   \<and> (\<exists>r s'. get_memory_usage_checked 0 (example_os 5000000) = Inr (r, s') \<and> sint r = - 1)"
proof -
  have v: "sint (fst (get_memory_usage 4242 (example_os 5000000))) = 5000000"
    "sint (fst (get_memory_usage 777 (example_os 5000000))) = - 1"
    "sint (fst (get_memory_usage 0 (example_os 5000000))) = - 1"
    by (simp_all add: example_defs)
  show ?thesis
    using get_memory_usage_returns [of 4242 "example_os 5000000"]
      get_memory_usage_returns [of 777 "example_os 5000000"]
      get_memory_usage_returns [of 0 "example_os 5000000"] v
    by auto
qed

subsection \<open>C8: no retry\<close>

text \<open>
  Claim C8. One invocation calls \<^verbatim>\<open>OpenProcess\<close> once; it calls
  \<^verbatim>\<open>GetProcessMemoryInfo\<close> once when a handle was granted and not at all otherwise; and
  when either call fails the value returned is \<open>-1\<close>, with no second attempt.
\<close>

theorem no_retry:
  fixes s :: "('w::len) word os"
  assumes "OpenProcess (PROCESS_QUERY_INFORMATION OR PROCESS_VM_READ) FALSE pid s = (h, s1)"
    and "GetProcessMemoryInfo h (sizeof_PROCESS_MEMORY_COUNTERS TYPE('w)) s1 = (filled, s2)"
  shows "length (filter is_OpenProcess (calls_made pid s)) = 1
       \<and> length (filter is_GetProcessMemoryInfo (calls_made pid s)) = (if h = NULL then 0 else 1)
       \<and> (h = NULL \<or> filled = None \<longrightarrow> fst (get_memory_usage pid s) = - 1)"
proof -
  from assms have h: "fst (OpenProcess (PROCESS_QUERY_INFORMATION OR PROCESS_VM_READ) FALSE pid s) = h"
    by simp
  have "length (filter is_OpenProcess (calls_made pid s)) = 1"
    by (simp add: calls_made_cases Let_def)
  moreover have "length (filter is_GetProcessMemoryInfo (calls_made pid s)) = (if h = NULL then 0 else 1)"
    by (simp add: calls_made_cases h)
  moreover have "fst (get_memory_usage pid s) = - 1" if "h = NULL"
    using get_memory_usage_refused [of pid s s1] assms(1) that by simp
  moreover have "fst (get_memory_usage pid s) = - 1" if "h \<noteq> NULL" "filled = None"
    using get_memory_usage_granted [OF assms(1) that(1) assms(2)] that(2) by simp
  ultimately show ?thesis
    by blast
qed

theorem no_retry_witness:
  "length (filter is_OpenProcess (calls_made 777 (example_os 5000000))) = 1
   \<and> length (filter is_GetProcessMemoryInfo (calls_made 777 (example_os 5000000))) = 1
   \<and> fst (get_memory_usage 777 (example_os 5000000)) = - 1
   \<and> length (filter is_OpenProcess (calls_made 0 (example_os 5000000))) = 1
   \<and> length (filter is_GetProcessMemoryInfo (calls_made 0 (example_os 5000000))) = 0
   \<and> fst (get_memory_usage 0 (example_os 5000000)) = - 1"
proof -
  have a: "OpenProcess (PROCESS_QUERY_INFORMATION OR PROCESS_VM_READ) FALSE 777 (example_os 5000000)
      = (0x2A0, snd (OpenProcess (PROCESS_QUERY_INFORMATION OR PROCESS_VM_READ) FALSE 777
                       (example_os 5000000)))"
    by (simp add: example_defs)
  have b: "GetProcessMemoryInfo 0x2A0 (sizeof_PROCESS_MEMORY_COUNTERS TYPE(64))
        (snd (OpenProcess (PROCESS_QUERY_INFORMATION OR PROCESS_VM_READ) FALSE 777
                (example_os 5000000)))
      = (None, snd (GetProcessMemoryInfo 0x2A0 (sizeof_PROCESS_MEMORY_COUNTERS TYPE(64))
        (snd (OpenProcess (PROCESS_QUERY_INFORMATION OR PROCESS_VM_READ) FALSE 777
                (example_os 5000000)))))"
    by (simp add: example_defs)
  have c: "OpenProcess (PROCESS_QUERY_INFORMATION OR PROCESS_VM_READ) FALSE 0 (example_os 5000000)
      = (0, snd (OpenProcess (PROCESS_QUERY_INFORMATION OR PROCESS_VM_READ) FALSE 0
                       (example_os 5000000)))"
    by (simp add: example_defs)
  have d: "GetProcessMemoryInfo 0 (sizeof_PROCESS_MEMORY_COUNTERS TYPE(64))
        (snd (OpenProcess (PROCESS_QUERY_INFORMATION OR PROCESS_VM_READ) FALSE 0
                (example_os 5000000)))
      = (None, snd (GetProcessMemoryInfo 0 (sizeof_PROCESS_MEMORY_COUNTERS TYPE(64))
        (snd (OpenProcess (PROCESS_QUERY_INFORMATION OR PROCESS_VM_READ) FALSE 0
                (example_os 5000000)))))"
    by (simp add: example_defs)
  show ?thesis
    using no_retry [OF a b] no_retry [OF c d]
    by (simp add: NULL_def)
qed

subsection \<open>C9: the result depends only on the answers of the system\<close>

text \<open>
  Claim C9. Take two invocations for the same process identifier, in any two states of
  the system (other calls made before, other handles open). If \<^verbatim>\<open>OpenProcess\<close> is refused
  in both or granted in both, and, when granted, \<^verbatim>\<open>GetProcessMemoryInfo\<close> answers the same
  in both, then both return the same value. And an invocation leaves the system as it
  found it, but for the record of the calls it made: the function keeps no state of its
  own.
\<close>

theorem result_determined_by_answers:
  fixes s s' :: "('w::len) word os"
  assumes "OpenProcess (PROCESS_QUERY_INFORMATION OR PROCESS_VM_READ) FALSE pid s = (h, s1)"
    and "OpenProcess (PROCESS_QUERY_INFORMATION OR PROCESS_VM_READ) FALSE pid s' = (h', s1')"
    and "h = NULL \<longleftrightarrow> h' = NULL"
    and "GetProcessMemoryInfo h (sizeof_PROCESS_MEMORY_COUNTERS TYPE('w)) s1 = (filled, s2)"
    and "GetProcessMemoryInfo h' (sizeof_PROCESS_MEMORY_COUNTERS TYPE('w)) s1' = (filled', s2')"
    and "h = NULL \<or> filled = filled'"
  shows "fst (get_memory_usage pid s) = fst (get_memory_usage pid s')
       \<and> snd (get_memory_usage pid s) = s\<lparr>calls := calls s @ calls_made pid s\<rparr>
       \<and> snd (get_memory_usage pid s') = s'\<lparr>calls := calls s' @ calls_made pid s'\<rparr>"
proof -
  have "fst (get_memory_usage pid s) = fst (get_memory_usage pid s')"
  proof (cases "h = NULL")
    case True
    with assms(3) have "h' = NULL" by simp
    with True assms(1,2) show ?thesis
      by (simp add: get_memory_usage_refused)
  next
    case False
    with assms(3) have n': "h' \<noteq> NULL" by simp
    from False assms(6) have "filled = filled'" by simp
    then show ?thesis
      using get_memory_usage_granted [OF assms(1) False assms(4)]
        get_memory_usage_granted [OF assms(2) n' assms(5)]
      by simp
  qed
  then show ?thesis
    by (simp add: get_memory_usage_snd)
qed

theorem result_determined_by_answers_witness:
  "fst (get_memory_usage 4242 (example_os 5000000)) = fst (get_memory_usage 4242 busy_os)
   \<and> open_handles (snd (get_memory_usage 4242 busy_os)) = {#0x24, 0x28#}"
proof -
  have a: "OpenProcess (PROCESS_QUERY_INFORMATION OR PROCESS_VM_READ) FALSE 4242 (example_os 5000000)
      = (0x1F4, snd (OpenProcess (PROCESS_QUERY_INFORMATION OR PROCESS_VM_READ) FALSE 4242
                       (example_os 5000000)))"
    by (simp add: example_defs)
  have b: "OpenProcess (PROCESS_QUERY_INFORMATION OR PROCESS_VM_READ) FALSE 4242 busy_os
      = (0x3C8, snd (OpenProcess (PROCESS_QUERY_INFORMATION OR PROCESS_VM_READ) FALSE 4242 busy_os))"
    by (simp add: example_defs)
  have c: "((0x1F4 :: 64 word) = NULL) = ((0x3C8 :: 64 word) = NULL)"
    by (simp add: NULL_def)
  have d: "GetProcessMemoryInfo 0x1F4 (sizeof_PROCESS_MEMORY_COUNTERS TYPE(64))
       (snd (OpenProcess (PROCESS_QUERY_INFORMATION OR PROCESS_VM_READ) FALSE 4242 (example_os 5000000)))
      = (Some (example_pmc 5000000),
         snd (GetProcessMemoryInfo 0x1F4 (sizeof_PROCESS_MEMORY_COUNTERS TYPE(64))
       (snd (OpenProcess (PROCESS_QUERY_INFORMATION OR PROCESS_VM_READ) FALSE 4242 (example_os 5000000)))))"
    by (simp add: example_defs)
  have e: "GetProcessMemoryInfo 0x3C8 (sizeof_PROCESS_MEMORY_COUNTERS TYPE(64))
       (snd (OpenProcess (PROCESS_QUERY_INFORMATION OR PROCESS_VM_READ) FALSE 4242 busy_os))
      = (Some (example_pmc 5000000),
         snd (GetProcessMemoryInfo 0x3C8 (sizeof_PROCESS_MEMORY_COUNTERS TYPE(64))
       (snd (OpenProcess (PROCESS_QUERY_INFORMATION OR PROCESS_VM_READ) FALSE 4242 busy_os))))"
    by (simp add: example_defs)
  have f: "(0x1F4 :: 64 word) = NULL \<or> Some (example_pmc 5000000) = Some (example_pmc 5000000)"
    by simp
  show ?thesis
    using result_determined_by_answers [OF a b c d e f]
    by (simp add: busy_os_def)
qed

subsection \<open>C10: the process identifier is not validated\<close>

text \<open>
  Claim C10. For every process identifier, the first call of an invocation, and its only
  call of \<^verbatim>\<open>OpenProcess\<close>, passes the identifier as it was given; and the value
  returned is decided by the answers of the system alone: \<open>-1\<close> when the handle is
  refused, the outcome of the memory query otherwise. On a system that grants a handle
  for identifier 0, the function returns the working-set size reported for it.
\<close>

theorem pid_passed_unchecked:
  fixes s :: "('w::len) word os"
  assumes "OpenProcess (PROCESS_QUERY_INFORMATION OR PROCESS_VM_READ) FALSE pid s = (h, s1)"
    and "GetProcessMemoryInfo h (sizeof_PROCESS_MEMORY_COUNTERS TYPE('w)) s1 = (filled, s2)"
  shows "hd (calls_made pid s) =
           Call_OpenProcess (PROCESS_QUERY_INFORMATION OR PROCESS_VM_READ) FALSE pid
       \<and> filter is_OpenProcess (calls_made pid s) =
           [Call_OpenProcess (PROCESS_QUERY_INFORMATION OR PROCESS_VM_READ) FALSE pid]
       \<and> fst (get_memory_usage pid s) =
           (if h = NULL then - 1
            else case filled of Some pmc \<Rightarrow> ucast (WorkingSetSize pmc) | None \<Rightarrow> - 1)"
proof -
  from assms have h: "fst (OpenProcess (PROCESS_QUERY_INFORMATION OR PROCESS_VM_READ) FALSE pid s) = h"
    by simp
  have "hd (calls_made pid s) =
      Call_OpenProcess (PROCESS_QUERY_INFORMATION OR PROCESS_VM_READ) FALSE pid"
    and "filter is_OpenProcess (calls_made pid s) =
      [Call_OpenProcess (PROCESS_QUERY_INFORMATION OR PROCESS_VM_READ) FALSE pid]"
    by (simp_all add: calls_made_cases Let_def)
  moreover have "fst (get_memory_usage pid s) =
      (if h = NULL then - 1
       else case filled of Some pmc \<Rightarrow> ucast (WorkingSetSize pmc) | None \<Rightarrow> - 1)"
  proof (cases "h = NULL")
    case True
    with get_memory_usage_refused [of pid s s1] assms(1) show ?thesis by simp
  next
    case False
    with get_memory_usage_granted [OF assms(1) False assms(2)] show ?thesis by simp
  qed
  ultimately show ?thesis by simp
qed

theorem pid_passed_unchecked_witness:
  "hd (calls_made 0 (permissive_os 5000000)) = Call_OpenProcess 0x410 False 0
   \<and> sint (fst (get_memory_usage 0 (permissive_os 5000000))) = 5000000
   \<and> hd (calls_made 0xFFFFFFFF (example_os 5000000)) = Call_OpenProcess 0x410 False 0xFFFFFFFF
   \<and> sint (fst (get_memory_usage 0xFFFFFFFF (example_os 5000000))) = - 1"
proof -
  have a: "OpenProcess (PROCESS_QUERY_INFORMATION OR PROCESS_VM_READ) FALSE 0 (permissive_os 5000000)
      = (0x1F4, snd (OpenProcess (PROCESS_QUERY_INFORMATION OR PROCESS_VM_READ) FALSE 0
                       (permissive_os 5000000)))"
    by (simp add: example_defs)
  have b: "GetProcessMemoryInfo 0x1F4 (sizeof_PROCESS_MEMORY_COUNTERS TYPE(64))
       (snd (OpenProcess (PROCESS_QUERY_INFORMATION OR PROCESS_VM_READ) FALSE 0 (permissive_os 5000000)))
      = (Some (example_pmc 5000000),
         snd (GetProcessMemoryInfo 0x1F4 (sizeof_PROCESS_MEMORY_COUNTERS TYPE(64))
       (snd (OpenProcess (PROCESS_QUERY_INFORMATION OR PROCESS_VM_READ) FALSE 0 (permissive_os 5000000)))))"
    by (simp add: example_defs)
  have c: "OpenProcess (PROCESS_QUERY_INFORMATION OR PROCESS_VM_READ) FALSE 0xFFFFFFFF (example_os 5000000)
      = (0, snd (OpenProcess (PROCESS_QUERY_INFORMATION OR PROCESS_VM_READ) FALSE 0xFFFFFFFF
                       (example_os 5000000)))"
    by (simp add: example_defs)
  have d: "GetProcessMemoryInfo 0 (sizeof_PROCESS_MEMORY_COUNTERS TYPE(64))
       (snd (OpenProcess (PROCESS_QUERY_INFORMATION OR PROCESS_VM_READ) FALSE 0xFFFFFFFF (example_os 5000000)))
      = (None,
         snd (GetProcessMemoryInfo 0 (sizeof_PROCESS_MEMORY_COUNTERS TYPE(64))
       (snd (OpenProcess (PROCESS_QUERY_INFORMATION OR PROCESS_VM_READ) FALSE 0xFFFFFFFF (example_os 5000000)))))"
    by (simp add: example_defs)
  show ?thesis
    using pid_passed_unchecked [OF a b] pid_passed_unchecked [OF c d]
    by (simp add: NULL_def example_pmc_def PROCESS_QUERY_INFORMATION_def PROCESS_VM_READ_def FALSE_def)
qed

end
